theory Spec2Isabelle
  imports Main
begin

section \<open>The runtime: values, exceptions, the host\<close>

text \<open>
  \<open>plugin.ts\<close> is TypeScript: the type \<open>KicsSchema\<close> it gives to the result of
  \<open>JSON.parse\<close> is erased at run time, so the report is modelled as the untyped value
  the runtime holds. A number is never inspected by the plugin; it is carried as is.
  An object lists its members; a property is read from the first member of that name.
\<close>

datatype jsval =
    JUndefined
  | JNull
  | JBool bool
  | JNum int
  | JStr string
  | JArr "jsval list"
  | JObj "(string \<times> jsval) list"

text \<open>
  What can be thrown. \<open>Error\<close> is \<open>new Error(message)\<close>; \<open>TypeError\<close> is what the
  runtime throws on a property read of \<open>undefined\<close>/\<open>null\<close>, on a call of something
  that is not a function and on a non-string argument of \<open>path.dirname\<close>/\<open>path.basename\<close>
  (its message is not modelled); \<open>SyntaxError\<close> and \<open>SystemError\<close> are
  the errors of \<open>JSON.parse\<close> and of \<open>fs\<close>/\<open>child_process\<close>, supplied by the host.
\<close>

datatype exn =
    Error string
  | TypeError
  | SyntaxError string
  | SystemError string

text \<open>
  The property read \<open>v.p\<close>, for the property names the plugin reads (\<open>queries\<close>,
  \<open>query_url\<close>, \<open>query_name\<close>, \<open>description\<close>, \<open>severity\<close>, \<open>files\<close>,
  \<open>resource_name\<close>, \<open>file_name\<close>, \<open>search_key\<close>): none of them is inherited from a
  prototype, so on an object it is the own property or \<open>undefined\<close>, and on an array
  or a primitive it is \<open>undefined\<close>.
\<close>

fun js_get :: "jsval \<Rightarrow> string \<Rightarrow> exn + jsval" where
  "js_get JUndefined p = Inl TypeError"
| "js_get JNull p = Inl TypeError"
| "js_get (JObj members) p =
     Inr (case map_of members p of None \<Rightarrow> JUndefined | Some v \<Rightarrow> v)"
| "js_get v p = Inr JUndefined"

text \<open>
  The receiver of \<open>.forEach(...)\<close> and \<open>.map(...)\<close>: only an array has these
  methods; on every other value of a parsed report the call throws a \<open>TypeError\<close>.
\<close>

fun js_array :: "jsval \<Rightarrow> exn + jsval list" where
  "js_array (JArr xs) = Inr xs"
| "js_array v = Inl TypeError"

text \<open>\<open>path.dirname\<close> and \<open>path.basename\<close> validate that their argument is a string.\<close>

fun js_path_arg :: "jsval \<Rightarrow> exn + string" where
  "js_path_arg (JStr s) = Inr s"
| "js_path_arg v = Inl TypeError"

text \<open>\<open>Array.prototype.map\<close> with a callback that may throw: the first throw ends it.\<close>

fun js_map :: "('a \<Rightarrow> exn + 'b) \<Rightarrow> 'a list \<Rightarrow> exn + 'b list" where
  "js_map f [] = Inr []"
| "js_map f (x # xs) =
     (case f x of
        Inl e \<Rightarrow> Inl e
      | Inr y \<Rightarrow> (case js_map f xs of Inl e \<Rightarrow> Inl e | Inr ys \<Rightarrow> Inr (y # ys)))"

text \<open>
  The host of one plugin instance: what \<open>os\<close>, \<open>path\<close>, \<open>fs\<close> and \<open>JSON\<close> answer,
  over a world \<open>'w\<close> (the file system and the processes) that \<open>exec\<close> may change.
  \<open>os_arch_text\<close> is the text of the function object \<open>os.arch\<close>, which \<open>getArch\<close>
  interpolates into its message; \<open>module_dirname\<close> is \<open>__dirname\<close>.

  \<open>exec\<close> is the helper of \<open>./utils\<close>, whose source is not in \<open>src/\<close>: it is taken
  as a parameter, running the argument vector in the world and either returning or
  throwing.
\<close>

record 'w host =
  os_platform :: string
  os_arch :: string
  os_arch_text :: string
  os_tmpdir :: string
  module_dirname :: string
  path_join :: "string list \<Rightarrow> string"
  path_dirname :: "string \<Rightarrow> string"
  path_basename :: "string \<Rightarrow> string"
  fs_realpathSync :: "string \<Rightarrow> 'w \<Rightarrow> exn + string"
  fs_readFileSync :: "string \<Rightarrow> 'w \<Rightarrow> exn + string"
  JSON_parse :: "string \<Rightarrow> exn + jsval"
  exec :: "string list \<Rightarrow> 'w \<Rightarrow> exn option \<times> 'w"

text \<open>
  The enum \<open>Severity\<close> of \<open>./private/schema\<close> is not in \<open>src/\<close>; the strings of the
  two members the plugin names are taken as parameters.
\<close>

record Severity_enum =
  HIGH :: string
  MEDIUM :: string

text \<open>What a \<open>validate\<close> call acts on: the world, and what \<open>console.error\<close> has printed.\<close>

record 'w state =
  world :: 'w
  console :: "exn list"


section \<open>The plugin\<close>

record KicsValidatorProps =
  excludeCategories :: "string list option"
  excludeQueries :: "string list option"
  excludeSeverities :: "string list option"
  failureSeverities :: "string list option"

record KicsValidator =
  name :: string
  kics :: string
  excludeQueries :: "string list option"
  excludeCategories :: "string list option"
  excludeSeverities :: "string list option"
  failureSeverities :: "string list"

record IValidationContext =
  templatePaths :: "string list"

record ViolatingResource =
  resourceLogicalId :: jsval
  templatePath :: string
  locations :: "jsval list"

record Violation =
  "fix" :: jsval
  ruleName :: jsval
  description :: jsval
  severity :: jsval
  violatingResources :: "ViolatingResource list"

record ValidationPluginReport =
  violations :: "Violation list"
  success :: bool

definition getArch :: "'w host \<Rightarrow> exn + string" where
  "getArch host =
     (if os_arch host = ''x64'' then Inr ''amd64''
      else if os_arch host = ''arm64'' then Inr ''arm64''
      else Inl (Error (''Architecture '' @ os_arch_text host @ '' is not supported'')))"

text \<open>The constructor; \<open>None\<close> is the call without argument, whose \<open>props\<close> is \<open>{}\<close>.\<close>

definition KicsValidator_new ::
  "Severity_enum \<Rightarrow> 'w host \<Rightarrow> KicsValidatorProps option \<Rightarrow> exn + KicsValidator" where
  "KicsValidator_new Severity host props_arg =
     (let props = (case props_arg of
                     None \<Rightarrow> \<lparr>KicsValidatorProps.excludeCategories = None,
                              KicsValidatorProps.excludeQueries = None,
                              KicsValidatorProps.excludeSeverities = None,
                              KicsValidatorProps.failureSeverities = None\<rparr>
                   | Some p \<Rightarrow> p);
          platform = (if os_platform host = ''win32'' then ''windows'' else os_platform host)
      in case getArch host of
           Inl e \<Rightarrow> Inl e
         | Inr arch \<Rightarrow>
             Inr \<lparr>name = ''cdk-validator-kics'',
                  kics = path_join host
                    [module_dirname host, ''..'', ''bin'', platform @ ''_'' @ arch,
                     if platform = ''windows'' then ''kics.exe'' else ''kics''],
                  excludeQueries = KicsValidatorProps.excludeQueries props,
                  excludeCategories = KicsValidatorProps.excludeCategories props,
                  excludeSeverities = KicsValidatorProps.excludeSeverities props,
                  failureSeverities =
                    (case KicsValidatorProps.failureSeverities props of
                       None \<Rightarrow> [HIGH Severity, MEDIUM Severity]
                     | Some l \<Rightarrow> l)\<rparr>)"

text \<open>\<open>xs.flatMap(x => [flag, x])\<close>.\<close>

definition flatMap_flag :: "string \<Rightarrow> string list \<Rightarrow> string list" where
  "flatMap_flag flag xs = concat (map (\<lambda>x. [flag, x]) xs)"

text \<open>The array literal \<open>flags\<close> of \<open>validate\<close>; an array, also an empty one, is truthy.\<close>

definition flags ::
  "'w host \<Rightarrow> KicsValidator \<Rightarrow> IValidationContext \<Rightarrow> string \<Rightarrow> string list" where
  "flags host this context reportDir =
     [kics this, ''scan'']
     @ flatMap_flag ''--path'' (templatePaths context)
     @ [''--output-path'', reportDir,
        ''--output-name'', name this,
        ''--libraries-path'', path_join host [module_dirname host, ''..'', ''assets'', ''libraries''],
        ''--queries-path'', path_join host [module_dirname host, ''..'', ''assets'', ''queries'']]
     @ flatMap_flag ''--fail-on'' (failureSeverities this)
     @ (case excludeQueries this of
          Some l \<Rightarrow> flatMap_flag ''--exclude-queries'' l | None \<Rightarrow> [])
     @ (case excludeCategories this of
          Some l \<Rightarrow> flatMap_flag ''--exclude-categories'' l | None \<Rightarrow> [])
     @ (case excludeSeverities this of
          Some l \<Rightarrow> flatMap_flag ''--exclude-severities'' l | None \<Rightarrow> [])
     @ [''--ci'', ''--report-formats'', ''\"json\"'']"

text \<open>The callback of \<open>query.files.map\<close>.\<close>

definition map_file :: "'w host \<Rightarrow> jsval \<Rightarrow> exn + ViolatingResource" where
  "map_file host file =
     (case js_get file ''resource_name'' of
        Inl e \<Rightarrow> Inl e
      | Inr resource_name \<Rightarrow>
     (case js_get file ''file_name'' of
        Inl e \<Rightarrow> Inl e
      | Inr file_name \<Rightarrow>
     (case js_path_arg file_name of
        Inl e \<Rightarrow> Inl e
      | Inr p \<Rightarrow>
     (case js_get file ''search_key'' of
        Inl e \<Rightarrow> Inl e
      | Inr search_key \<Rightarrow>
          Inr \<lparr>resourceLogicalId = resource_name,
               templatePath = path_join host [path_dirname host p, path_basename host p],
               locations = [search_key]\<rparr>))))"

text \<open>The object literal that the callback of \<open>output.queries.forEach\<close> pushes.\<close>

definition map_query :: "'w host \<Rightarrow> jsval \<Rightarrow> exn + Violation" where
  "map_query host query =
     (case js_get query ''query_url'' of
        Inl e \<Rightarrow> Inl e
      | Inr query_url \<Rightarrow>
     (case js_get query ''query_name'' of
        Inl e \<Rightarrow> Inl e
      | Inr query_name \<Rightarrow>
     (case js_get query ''description'' of
        Inl e \<Rightarrow> Inl e
      | Inr descr \<Rightarrow>
     (case js_get query ''severity'' of
        Inl e \<Rightarrow> Inl e
      | Inr sev \<Rightarrow>
     (case js_get query ''files'' of
        Inl e \<Rightarrow> Inl e
      | Inr files \<Rightarrow>
     (case js_array files of
        Inl e \<Rightarrow> Inl e
      | Inr fs \<Rightarrow>
     (case js_map (map_file host) fs of
        Inl e \<Rightarrow> Inl e
      | Inr resources \<Rightarrow>
          Inr \<lparr>fix = query_url, ruleName = query_name, description = descr,
               severity = sev, violatingResources = resources\<rparr>)))))))"

text \<open>
  \<open>output.queries.forEach\<close> over the variables \<open>success\<close> and \<open>violations\<close> of
  \<open>validate\<close> (here \<open>succ\<close> and \<open>viols\<close>): each round first sets \<open>success = false\<close>, then evaluates the object
  literal, then pushes it. A throw ends the loop with what was pushed so far.
\<close>

fun forEach_query ::
  "'w host \<Rightarrow> jsval list \<Rightarrow> bool \<times> Violation list \<Rightarrow> exn option \<times> bool \<times> Violation list" where
  "forEach_query host [] (succ, viols) = (None, succ, viols)"
| "forEach_query host (query # rest) (succ, viols) =
     (case map_query host query of
        Inl e \<Rightarrow> (Some e, False, viols)
      | Inr v \<Rightarrow> forEach_query host rest (False, viols @ [v]))"

text \<open>
  The body of \<open>try\<close>, entered with \<open>success = true\<close> and \<open>violations = []\<close>: what was
  thrown, if anything, the two variables, and the world that \<open>exec\<close> left.
\<close>

definition try_block ::
  "'w host \<Rightarrow> string list \<Rightarrow> string \<Rightarrow> 'w \<Rightarrow> (exn option \<times> bool \<times> Violation list) \<times> 'w" where
  "try_block host fl reportPath w =
     (case exec host fl w of
        (Some e, w') \<Rightarrow> ((Some e, True, []), w')
      | (None, w') \<Rightarrow>
     (case fs_readFileSync host (reportPath @ ''.json'') w' of
        Inl e \<Rightarrow> ((Some e, True, []), w')
      | Inr results \<Rightarrow>
     (case JSON_parse host results of
        Inl e \<Rightarrow> ((Some e, True, []), w')
      | Inr output \<Rightarrow>
     (case js_get output ''queries'' of
        Inl e \<Rightarrow> ((Some e, True, []), w')
      | Inr qs \<Rightarrow>
     (case js_array qs of
        Inl e \<Rightarrow> ((Some e, True, []), w')
      | Inr queries \<Rightarrow> (forEach_query host queries (True, []), w'))))))"

text \<open>
  \<open>validate\<close>. \<open>fs.realpathSync\<close> is called before the \<open>try\<close>: what it throws
  leaves \<open>validate\<close> (\<open>Inl\<close>). Everything thrown inside the \<open>try\<close> is caught:
  \<open>success = false\<close>, and the error goes to \<open>console.error\<close>.
\<close>

definition validate ::
  "'w host \<Rightarrow> KicsValidator \<Rightarrow> IValidationContext \<Rightarrow> 'w state
     \<Rightarrow> (exn + ValidationPluginReport) \<times> 'w state" where
  "validate host this context s =
     (case fs_realpathSync host (os_tmpdir host) (world s) of
        Inl e \<Rightarrow> (Inl e, s)
      | Inr reportDir \<Rightarrow>
          (let reportPath = path_join host [reportDir, name this];
               fl = flags host this context reportDir
           in case try_block host fl reportPath (world s) of
                ((None, succ, viols), w') \<Rightarrow>
                  (Inr \<lparr>violations = viols, success = succ\<rparr>, s\<lparr>world := w'\<rparr>)
              | ((Some e, succ, viols), w') \<Rightarrow>
                  (Inr \<lparr>violations = viols, success = False\<rparr>,
                   s\<lparr>world := w', console := console s @ [e]\<rparr>)))"


section \<open>The report schema and the mapping the specification describes\<close>

text \<open>
  Modelled from the spec: the type \<open>KicsSchema\<close> of \<open>./private/schema\<close> is not in
  \<open>src/\<close>. The specification describes the report as a mapping with a \<open>queries\<close> key
  holding a list of findings, each with a name, a documentation URL, a description, a
  severity and an ordered list of file matches (file path, resource name, search key).
  The records hold the fields \<open>plugin.ts\<close> reads, under the property names it reads
  them by (\<open>finding_description\<close> and \<open>finding_severity\<close> are the properties
  \<open>description\<close> and \<open>severity\<close>).
\<close>

record RawFileMatch =
  file_name :: string
  resource_name :: string
  search_key :: string

record RawFinding =
  query_url :: string
  query_name :: string
  finding_description :: string
  finding_severity :: string
  files :: "RawFileMatch list"

record KicsSchema =
  queries :: "RawFinding list"

text \<open>
  A run-time value has one of these types when it has the properties of the type, each
  a string or an array of the right type; other properties are allowed, as in
  TypeScript.
\<close>

definition is_RawFileMatch :: "jsval \<Rightarrow> RawFileMatch \<Rightarrow> bool" where
  "is_RawFileMatch v m \<longleftrightarrow>
     js_get v ''file_name'' = Inr (JStr (file_name m)) \<and>
     js_get v ''resource_name'' = Inr (JStr (resource_name m)) \<and>
     js_get v ''search_key'' = Inr (JStr (search_key m))"

definition is_RawFinding :: "jsval \<Rightarrow> RawFinding \<Rightarrow> bool" where
  "is_RawFinding v q \<longleftrightarrow>
     js_get v ''query_url'' = Inr (JStr (query_url q)) \<and>
     js_get v ''query_name'' = Inr (JStr (query_name q)) \<and>
     js_get v ''description'' = Inr (JStr (finding_description q)) \<and>
     js_get v ''severity'' = Inr (JStr (finding_severity q)) \<and>
     (case js_get v ''files'' of
        Inr (JArr ms) \<Rightarrow> list_all2 is_RawFileMatch ms (files q)
      | _ \<Rightarrow> False)"

definition is_KicsSchema :: "jsval \<Rightarrow> KicsSchema \<Rightarrow> bool" where
  "is_KicsSchema v r \<longleftrightarrow>
     (case js_get v ''queries'' of
        Inr (JArr qs) \<Rightarrow> list_all2 is_RawFinding qs (queries r)
      | _ \<Rightarrow> False)"

text \<open>
  The Finding Mapper in the specification's words: one violation per finding, one
  violating resource per file match, field for field; the template path re-joins the
  directory and the base name of the file name, the locations are the search key alone.
\<close>

definition spec_ViolatingResource :: "'w host \<Rightarrow> RawFileMatch \<Rightarrow> ViolatingResource" where
  "spec_ViolatingResource host m =
     \<lparr>resourceLogicalId = JStr (resource_name m),
      templatePath =
        path_join host [path_dirname host (file_name m), path_basename host (file_name m)],
      locations = [JStr (search_key m)]\<rparr>"

definition spec_Violation :: "'w host \<Rightarrow> RawFinding \<Rightarrow> Violation" where
  "spec_Violation host q =
     \<lparr>fix = JStr (query_url q),
      ruleName = JStr (query_name q),
      description = JStr (finding_description q),
      severity = JStr (finding_severity q),
      violatingResources = map (spec_ViolatingResource host) (files q)\<rparr>"

text \<open>
  How the scanner's command line reads what follows the binary and the subcommand
  (the outbound interface of the specification): \<open>--ci\<close> stands alone, every other
  option takes the next word as its value, whatever that word is. \<open>options_named\<close>
  lists the occurrences of one option in an argument vector, in order, each with its
  value.
\<close>

fun cli_options :: "string list \<Rightarrow> (string \<times> string option) list" where
  "cli_options [] = []"
| "cli_options [f] = [(f, None)]"
| "cli_options (f # x # rest) =
     (if f = ''--ci'' then (f, None) # cli_options (x # rest)
      else (f, Some x) # cli_options rest)"

definition options_named :: "string \<Rightarrow> string list \<Rightarrow> (string \<times> string option) list" where
  "options_named flag argv = filter (\<lambda>(f, v). f = flag) (cli_options (drop 2 argv))"

text \<open>
  A host for the examples: Linux on x64, the POSIX path functions on absolute paths
  (\<open>path.join\<close> drops empty and \<open>.\<close> segments and resolves \<open>..\<close>), a file system
  as an association list from paths to texts, a scanner that throws \<open>fst scanner\<close>
  (if any) after writing the files \<open>snd scanner\<close>, and a JSON parser that knows the
  texts listed in \<open>parser\<close> and rejects every other text.
\<close>

fun demo_segments :: "string \<Rightarrow> string \<Rightarrow> string list" where
  "demo_segments [] seg = [rev seg]"
| "demo_segments (c # cs) seg =
     (if c = CHR ''/'' then rev seg # demo_segments cs [] else demo_segments cs (c # seg))"

fun demo_normalize :: "string list \<Rightarrow> string list \<Rightarrow> string list" where
  "demo_normalize [] up = rev up"
| "demo_normalize (seg # rest) up =
     (if seg = [] \<or> seg = ''.'' then demo_normalize rest up
      else if seg = ''..'' then demo_normalize rest (tl up)
      else demo_normalize rest (seg # up))"

definition demo_join :: "string list \<Rightarrow> string" where
  "demo_join parts =
     (let segs = demo_normalize (concat (map (\<lambda>p. demo_segments p []) parts)) []
      in if segs = [] then ''/'' else concat (map (\<lambda>seg. CHR ''/'' # seg) segs))"

definition demo_basename :: "string \<Rightarrow> string" where
  "demo_basename p = rev (takeWhile (\<lambda>c. c \<noteq> CHR ''/'') (rev p))"

definition demo_dirname :: "string \<Rightarrow> string" where
  "demo_dirname p =
     (let d = rev (drop 1 (dropWhile (\<lambda>c. c \<noteq> CHR ''/'') (rev p)))
      in if d = [] then ''/'' else d)"

definition demo_host ::
  "exn option \<times> (string \<times> string) list \<Rightarrow> (string \<times> jsval) list
     \<Rightarrow> (string \<times> string) list host" where
  "demo_host scanner parser =
     \<lparr>os_platform = ''linux'',
      os_arch = ''x64'',
      os_arch_text = ''function arch() { [native code] }'',
      os_tmpdir = ''/tmp'',
      module_dirname = ''/plugin/lib'',
      path_join = demo_join,
      path_dirname = demo_dirname,
      path_basename = demo_basename,
      fs_realpathSync = (\<lambda>p w. Inr p),
      fs_readFileSync = (\<lambda>p w. case map_of w p of
                                 None \<Rightarrow> Inl (SystemError ''ENOENT'')
                               | Some t \<Rightarrow> Inr t),
      JSON_parse = (\<lambda>t. case map_of parser t of
                          None \<Rightarrow> Inl (SyntaxError ''Unexpected token'')
                        | Some v \<Rightarrow> Inr v),
      exec = (\<lambda>argv w. (fst scanner, snd scanner @ w))\<rparr>"

definition demo_Severity :: Severity_enum where
  "demo_Severity = \<lparr>HIGH = ''high'', MEDIUM = ''medium''\<rparr>"

definition demo_this :: KicsValidator where
  "demo_this =
     \<lparr>name = ''cdk-validator-kics'',
      kics = ''/plugin/bin/linux_amd64/kics'',
      excludeQueries = None,
      excludeCategories = None,
      excludeSeverities = None,
      failureSeverities = [''high'', ''medium'']\<rparr>"

definition demo_state :: "(string \<times> string) list state" where
  "demo_state = \<lparr>world = [], console = []\<rparr>"

definition demo_props :: KicsValidatorProps where
  "demo_props =
     \<lparr>KicsValidatorProps.excludeCategories = Some [],
      KicsValidatorProps.excludeQueries = Some [''a1'', ''b2''],
      KicsValidatorProps.excludeSeverities = None,
      KicsValidatorProps.failureSeverities = Some [''low'']\<rparr>"

definition demo_this_excluding :: KicsValidator where
  "demo_this_excluding =
     \<lparr>name = ''cdk-validator-kics'',
      kics = ''/plugin/bin/linux_amd64/kics'',
      excludeQueries = Some [''a1'', ''b2''],
      excludeCategories = Some [],
      excludeSeverities = None,
      failureSeverities = [''low'']\<rparr>"


definition demo_context :: IValidationContext where
  "demo_context = \<lparr>templatePaths = [''/a/template.json'', ''/b/template.json'']\<rparr>"

definition demo_report_path :: string where
  "demo_report_path = ''/tmp/cdk-validator-kics.json''"

text \<open>Three reports: the text the scanner writes and the value it parses to.\<close>

definition text_no_queries :: string where
  \<open>text_no_queries = ''{"queries":[]}''\<close>

definition output_no_queries :: jsval where
  "output_no_queries = JObj [(''queries'', JArr [])]"

definition query_two_files :: jsval where
  "query_two_files =
     JObj [(''query_name'', JStr ''Q1''),
           (''query_url'', JStr ''https://docs.kics.io/q1''),
           (''severity'', JStr ''HIGH''),
           (''description'', JStr ''D1''),
           (''files'', JArr
              [JObj [(''file_name'', JStr ''/a/template.json''), (''line'', JNum 4),
                     (''resource_name'', JStr ''BucketA''),
                     (''search_key'', JStr ''Resources.BucketA'')],
               JObj [(''file_name'', JStr ''/b/template.json''), (''line'', JNum 9),
                     (''resource_name'', JStr ''BucketB''),
                     (''search_key'', JStr ''Resources.BucketB'')]])]"

definition finding_two_files :: RawFinding where
  "finding_two_files =
     \<lparr>query_url = ''https://docs.kics.io/q1'', query_name = ''Q1'',
      finding_description = ''D1'', finding_severity = ''HIGH'',
      files =
        [\<lparr>file_name = ''/a/template.json'', resource_name = ''BucketA'',
          search_key = ''Resources.BucketA''\<rparr>,
         \<lparr>file_name = ''/b/template.json'', resource_name = ''BucketB'',
          search_key = ''Resources.BucketB''\<rparr>]\<rparr>"

definition violation_two_files :: Violation where
  "violation_two_files =
     \<lparr>fix = JStr ''https://docs.kics.io/q1'', ruleName = JStr ''Q1'',
      description = JStr ''D1'', severity = JStr ''HIGH'',
      violatingResources =
        [\<lparr>resourceLogicalId = JStr ''BucketA'', templatePath = ''/a/template.json'',
          locations = [JStr ''Resources.BucketA'']\<rparr>,
         \<lparr>resourceLogicalId = JStr ''BucketB'', templatePath = ''/b/template.json'',
          locations = [JStr ''Resources.BucketB'']\<rparr>]\<rparr>"

definition query_one_file :: jsval where
  "query_one_file =
     JObj [(''query_name'', JStr ''Q2''),
           (''query_url'', JStr ''https://docs.kics.io/q2''),
           (''severity'', JStr ''LOW''),
           (''description'', JStr ''D2''),
           (''files'', JArr
              [JObj [(''file_name'', JStr ''/b/template.json''),
                     (''resource_name'', JStr ''TopicB''),
                     (''search_key'', JStr ''Resources.TopicB'')]])]"

definition finding_one_file :: RawFinding where
  "finding_one_file =
     \<lparr>query_url = ''https://docs.kics.io/q2'', query_name = ''Q2'',
      finding_description = ''D2'', finding_severity = ''LOW'',
      files =
        [\<lparr>file_name = ''/b/template.json'', resource_name = ''TopicB'',
          search_key = ''Resources.TopicB''\<rparr>]\<rparr>"

definition violation_one_file :: Violation where
  "violation_one_file =
     \<lparr>fix = JStr ''https://docs.kics.io/q2'', ruleName = JStr ''Q2'',
      description = JStr ''D2'', severity = JStr ''LOW'',
      violatingResources =
        [\<lparr>resourceLogicalId = JStr ''TopicB'', templatePath = ''/b/template.json'',
          locations = [JStr ''Resources.TopicB'']\<rparr>]\<rparr>"

definition text_one_query :: string where
  \<open>text_one_query = ''{"queries":[{"query_name":"Q1","query_url":"https://docs.kics.io/q1","severity":"HIGH","description":"D1","files":[{"file_name":"/a/template.json","line":4,"resource_name":"BucketA","search_key":"Resources.BucketA"},{"file_name":"/b/template.json","line":9,"resource_name":"BucketB","search_key":"Resources.BucketB"}]}]}''\<close>

definition output_one_query :: jsval where
  "output_one_query = JObj [(''queries'', JArr [query_two_files])]"

definition text_two_queries :: string where
  \<open>text_two_queries = ''{"queries":[{"query_name":"Q2","query_url":"https://docs.kics.io/q2","severity":"LOW","description":"D2","files":[{"file_name":"/b/template.json","resource_name":"TopicB","search_key":"Resources.TopicB"}]},{"query_name":"Q1","query_url":"https://docs.kics.io/q1","severity":"HIGH","description":"D1","files":[{"file_name":"/a/template.json","line":4,"resource_name":"BucketA","search_key":"Resources.BucketA"},{"file_name":"/b/template.json","line":9,"resource_name":"BucketB","search_key":"Resources.BucketB"}]}]}''\<close>

definition output_two_queries :: jsval where
  "output_two_queries = JObj [(''queries'', JArr [query_one_file, query_two_files])]"

text \<open>A report whose second entry has no \<open>files\<close>.\<close>

definition text_files_absent :: string where
  \<open>text_files_absent = ''{"queries":[{"query_name":"Q2","query_url":"https://docs.kics.io/q2","severity":"LOW","description":"D2","files":[{"file_name":"/b/template.json","resource_name":"TopicB","search_key":"Resources.TopicB"}]},{"query_name":"Q3"}]}''\<close>

definition query_files_absent :: jsval where
  "query_files_absent = JObj [(''query_name'', JStr ''Q3'')]"

definition output_files_absent :: jsval where
  "output_files_absent = JObj [(''queries'', JArr [query_one_file, query_files_absent])]"

definition text_malformed :: string where
  \<open>text_malformed = ''{"queries":[''\<close>


section \<open>The mapping loop\<close>

lemma forEach_query_success:
  "forEach_query host qs (succ, vs) = (e, succ', vs') \<Longrightarrow> succ' \<Longrightarrow>
     qs = [] \<and> e = None \<and> vs' = vs \<and> succ"
proof (induction qs arbitrary: succ vs)
  case Nil
  then show ?case by simp
next
  case (Cons q qs)
  show ?case
  proof (cases "map_query host q")
    case (Inl x)
    with Cons.prems show ?thesis by simp
  next
    case (Inr v)
    with Cons.prems have "forEach_query host qs (False, vs @ [v]) = (e, succ', vs')" by simp
    from Cons.IH [OF this Cons.prems(2)] show ?thesis by simp
  qed
qed

lemma map_file_typed:
  "is_RawFileMatch v m \<Longrightarrow> map_file host v = Inr (spec_ViolatingResource host m)"
  by (simp add: is_RawFileMatch_def map_file_def spec_ViolatingResource_def)

lemma js_map_typed:
  "list_all2 is_RawFileMatch vs ms \<Longrightarrow>
     js_map (map_file host) vs = Inr (map (spec_ViolatingResource host) ms)"
  by (induction vs ms rule: list_all2_induct) (simp_all add: map_file_typed)

lemma map_query_typed:
  "is_RawFinding v q \<Longrightarrow> map_query host v = Inr (spec_Violation host q)"
  by (auto simp: is_RawFinding_def map_query_def spec_Violation_def js_map_typed
      split: sum.splits jsval.splits)

lemma forEach_query_typed:
  "list_all2 is_RawFinding vs qs \<Longrightarrow>
     forEach_query host vs (succ, acc) =
       (None, succ \<and> vs = [], acc @ map (spec_Violation host) qs)"
  by (induction vs qs arbitrary: succ acc rule: list_all2_induct)
     (simp_all add: map_query_typed)

lemma forEach_query_throw:
  "list_all2 is_RawFinding vs qs \<Longrightarrow> map_query host bad = Inl e \<Longrightarrow>
     forEach_query host (vs @ bad # rest) (succ, acc) =
       (Some e, False, acc @ map (spec_Violation host) qs)"
  by (induction vs qs arbitrary: succ acc rule: list_all2_induct)
     (simp_all add: map_query_typed)

lemma cli_options_flatMap:
  "flag \<noteq> ''--ci'' \<Longrightarrow>
     cli_options (flatMap_flag flag xs @ rest) =
       map (\<lambda>x. (flag, Some x)) xs @ cli_options rest"
  by (induction xs) (simp_all add: flatMap_flag_def)

lemma map_query_files_absent:
  "js_get bad ''files'' = Inr JUndefined \<Longrightarrow> map_query host bad = Inl TypeError"
  by (cases bad) (simp_all add: map_query_def)


section \<open>One call of validate\<close>

lemma validate_parsed:
  assumes "fs_realpathSync host (os_tmpdir host) (world s) = Inr reportDir"
    and "exec host (flags host this ctx reportDir) (world s) = (None, w')"
    and "fs_readFileSync host (path_join host [reportDir, name this] @ ''.json'') w' = Inr results"
    and "JSON_parse host results = Inr out"
    and "js_get out ''queries'' = Inr (JArr qs)"
    and "forEach_query host qs (True, []) = (thrown, succ, viols)"
  shows "validate host this ctx s =
     (case thrown of
        None \<Rightarrow> (Inr \<lparr>violations = viols, success = succ\<rparr>, s\<lparr>world := w'\<rparr>)
      | Some e \<Rightarrow> (Inr \<lparr>violations = viols, success = False\<rparr>,
                   s\<lparr>world := w', console := console s @ [e]\<rparr>))"
  using assms by (simp add: validate_def try_block_def Let_def split: option.splits)

lemma try_block_success:
  assumes "try_block host fl reportPath w = ((None, succ, viols), w')" and "succ"
  shows "viols = []"
  using assms
  by (auto simp: try_block_def split: prod.splits option.splits sum.splits
      dest: forEach_query_success)

text \<open>\<open>validate\<close> never reads the architecture of the host.\<close>

lemma map_file_arch: "map_file (host\<lparr>os_arch := a\<rparr>) = map_file host"
  by (rule ext) (simp add: map_file_def cong: sum.case_cong)

lemma map_query_arch: "map_query (host\<lparr>os_arch := a\<rparr>) = map_query host"
  by (rule ext) (simp add: map_query_def map_file_arch cong: sum.case_cong)

lemma forEach_query_arch:
  "forEach_query (host\<lparr>os_arch := a\<rparr>) qs st = forEach_query host qs st"
  by (induction host qs st rule: forEach_query.induct)
     (simp_all add: map_query_arch split: sum.splits)

lemma validate_arch:
  "validate (host\<lparr>os_arch := a\<rparr>) this ctx s = validate host this ctx s"
  by (simp add: validate_def try_block_def flags_def forEach_query_arch
      cong: sum.case_cong prod.case_cong option.case_cong)


section \<open>The argument vector as a command line\<close>

lemma filter_flag_map:
  "filter (\<lambda>(f, v). f = g) (map (\<lambda>x. (flag, Some x)) xs) =
     (if flag = g then map (\<lambda>x. (flag, Some x)) xs else [])"
  by (induction xs) simp_all

lemma cli_options_flags:
  "cli_options (drop 2 (flags host this ctx reportDir)) =
     map (\<lambda>x. (''--path'', Some x)) (templatePaths ctx)
     @ [(''--output-path'', Some reportDir),
        (''--output-name'', Some (name this)),
        (''--libraries-path'',
           Some (path_join host [module_dirname host, ''..'', ''assets'', ''libraries''])),
        (''--queries-path'',
           Some (path_join host [module_dirname host, ''..'', ''assets'', ''queries'']))]
     @ map (\<lambda>x. (''--fail-on'', Some x)) (failureSeverities this)
     @ map (\<lambda>x. (''--exclude-queries'', Some x))
         (case excludeQueries this of None \<Rightarrow> [] | Some l \<Rightarrow> l)
     @ map (\<lambda>x. (''--exclude-categories'', Some x))
         (case excludeCategories this of None \<Rightarrow> [] | Some l \<Rightarrow> l)
     @ map (\<lambda>x. (''--exclude-severities'', Some x))
         (case excludeSeverities this of None \<Rightarrow> [] | Some l \<Rightarrow> l)
     @ [(''--ci'', None), (''--report-formats'', Some ''\"json\"'')]"
proof -
  have tail: "cli_options [''--ci'', ''--report-formats'', ''\"json\"''] =
      [(''--ci'', None), (''--report-formats'', Some ''\"json\"'')]"
    by simp
  have opt: "\<And>flag l rest. flag \<noteq> ''--ci'' \<Longrightarrow>
      cli_options ((case l of Some l \<Rightarrow> flatMap_flag flag l | None \<Rightarrow> []) @ rest) =
        map (\<lambda>x. (flag, Some x)) (case l of None \<Rightarrow> [] | Some l \<Rightarrow> l) @ cli_options rest"
    by (simp add: cli_options_flatMap split: option.splits)
  have pair: "\<And>f x rest. f \<noteq> ''--ci'' \<Longrightarrow>
      cli_options (f # x # rest) = (f, Some x) # cli_options rest"
    by simp
  show ?thesis
    unfolding flags_def
    by (simp add: cli_options_flatMap opt tail pair del: cli_options.simps)
qed


section \<open>The claims\<close>

text \<open>
  C1. For every report that was read and parsed and has the type of the schema, the
  Finding Mapper is one-to-one and order-preserving: \<open>validate\<close> returns one violation
  per entry of \<open>queries\<close>, in input order, each with one violating resource per entry
  of that finding's \<open>files\<close>, in order, and the fields are mapped one by one:
  \<open>fix\<close> from \<open>query_url\<close>, \<open>ruleName\<close> from \<open>query_name\<close>, \<open>description\<close> from
  \<open>description\<close>, \<open>severity\<close> from \<open>severity\<close>, \<open>resourceLogicalId\<close> from
  \<open>resource_name\<close>, \<open>templatePath\<close> from joining \<open>path.dirname\<close> and
  \<open>path.basename\<close> of \<open>file_name\<close>, and \<open>locations\<close> the one-element list that
  holds \<open>search_key\<close>.
\<close>

theorem finding_mapper_one_to_one:
  assumes "fs_realpathSync host (os_tmpdir host) (world s) = Inr reportDir"
    and "exec host (flags host this ctx reportDir) (world s) = (None, w')"
    and "fs_readFileSync host (path_join host [reportDir, name this] @ ''.json'') w' = Inr results"
    and "JSON_parse host results = Inr out"
    and "is_KicsSchema out report"
  shows "\<exists>r s'. validate host this ctx s = (Inr r, s') \<and>
     violations r = map (spec_Violation host) (queries report) \<and>
     length (violations r) = length (queries report) \<and>
     (\<forall>i < length (queries report).
        fix (violations r ! i) = JStr (query_url (queries report ! i)) \<and>
        ruleName (violations r ! i) = JStr (query_name (queries report ! i)) \<and>
        description (violations r ! i) = JStr (finding_description (queries report ! i)) \<and>
        severity (violations r ! i) = JStr (finding_severity (queries report ! i)) \<and>
        length (violatingResources (violations r ! i)) = length (files (queries report ! i)) \<and>
        (\<forall>j < length (files (queries report ! i)).
           resourceLogicalId (violatingResources (violations r ! i) ! j) =
             JStr (resource_name (files (queries report ! i) ! j)) \<and>
           templatePath (violatingResources (violations r ! i) ! j) =
             path_join host [path_dirname host (file_name (files (queries report ! i) ! j)),
                             path_basename host (file_name (files (queries report ! i) ! j))] \<and>
           locations (violatingResources (violations r ! i) ! j) =
             [JStr (search_key (files (queries report ! i) ! j))]))"
proof -
  from assms(5) obtain qs where qs: "js_get out ''queries'' = Inr (JArr qs)"
    and typed: "list_all2 is_RawFinding qs (queries report)"
    by (auto simp: is_KicsSchema_def split: sum.splits jsval.splits)
  have loop: "forEach_query host qs (True, []) =
      (None, qs = [], map (spec_Violation host) (queries report))"
    using forEach_query_typed [OF typed, of host True "[]"] by simp
  have "validate host this ctx s =
      (Inr \<lparr>violations = map (spec_Violation host) (queries report), success = (qs = [])\<rparr>,
       s\<lparr>world := w'\<rparr>)"
    using validate_parsed [OF assms(1-4) qs loop] by simp
  then show ?thesis
    by (simp add: spec_Violation_def spec_ViolatingResource_def)
qed

theorem finding_mapper_one_to_one_witness:
  "is_KicsSchema output_two_queries \<lparr>queries = [finding_one_file, finding_two_files]\<rparr> \<and>
   (\<exists>r s'. validate
       (demo_host (None, [(demo_report_path, text_two_queries)])
          [(text_two_queries, output_two_queries)])
       demo_this demo_context demo_state = (Inr r, s') \<and>
     violations r = [violation_one_file, violation_two_files])"
proof -
  let ?host = "demo_host (None, [(demo_report_path, text_two_queries)])
          [(text_two_queries, output_two_queries)]"
  let ?report = "\<lparr>queries = [finding_one_file, finding_two_files]\<rparr>"
  have h1: "fs_realpathSync ?host (os_tmpdir ?host) (world demo_state) = Inr ''/tmp''"
    by (simp add: demo_host_def)
  have h2: "exec ?host (flags ?host demo_this demo_context ''/tmp'') (world demo_state) =
      (None, [(demo_report_path, text_two_queries)])"
    by (simp add: demo_host_def demo_state_def)
  have h3: "fs_readFileSync ?host (path_join ?host [''/tmp'', name demo_this] @ ''.json'')
      [(demo_report_path, text_two_queries)] = Inr text_two_queries"
    by (simp add: demo_host_def demo_this_def demo_report_path_def demo_join_def)
  have h4: "JSON_parse ?host text_two_queries = Inr output_two_queries"
    by (simp add: demo_host_def)
  have h5: "is_KicsSchema output_two_queries ?report"
    by (simp add: is_KicsSchema_def is_RawFinding_def is_RawFileMatch_def
        output_two_queries_def query_one_file_def query_two_files_def
        finding_one_file_def finding_two_files_def)
  have m: "map (spec_Violation ?host) (queries ?report) =
      [violation_one_file, violation_two_files]"
    by (simp add: spec_Violation_def spec_ViolatingResource_def demo_host_def
        demo_join_def demo_dirname_def demo_basename_def
        finding_one_file_def finding_two_files_def
        violation_one_file_def violation_two_files_def)
  from finding_mapper_one_to_one [OF h1 h2 h3 h4 h5] m h5 show ?thesis
    by metis
qed

text \<open>
  C2. For every report that was read and parsed and whose \<open>queries\<close> is a non-empty
  array, \<open>validate\<close> returns \<open>success = false\<close>, whatever the entries and their
  severities are. In particular a report of the schema's type with one query that has
  two file matches gives \<open>success = false\<close> and exactly one violation, which has exactly
  two violating resources.
\<close>

theorem nonempty_queries_fail:
  assumes "fs_realpathSync host (os_tmpdir host) (world s) = Inr reportDir"
    and "exec host (flags host this ctx reportDir) (world s) = (None, w')"
    and "fs_readFileSync host (path_join host [reportDir, name this] @ ''.json'') w' = Inr results"
    and "JSON_parse host results = Inr out"
    and "js_get out ''queries'' = Inr (JArr qs)"
    and "qs \<noteq> []"
  shows "(\<exists>r s'. validate host this ctx s = (Inr r, s') \<and> \<not> success r) \<and>
     (\<forall>q m1 m2. is_KicsSchema out \<lparr>queries = [q]\<rparr> \<and> files q = [m1, m2] \<longrightarrow>
        (\<exists>v. validate host this ctx s =
                (Inr \<lparr>violations = [v], success = False\<rparr>, s\<lparr>world := w'\<rparr>) \<and>
             length (violatingResources v) = 2))"
proof (intro conjI allI impI)
  obtain thrown succ viols where loop: "forEach_query host qs (True, []) = (thrown, succ, viols)"
    by (cases "forEach_query host qs (True, [])") auto
  have "\<not> succ"
    using forEach_query_success [OF loop] assms(6) by blast
  with validate_parsed [OF assms(1-5) loop]
  show "\<exists>r s'. validate host this ctx s = (Inr r, s') \<and> \<not> success r"
    by (cases thrown) simp_all
next
  fix q m1 m2
  assume h: "is_KicsSchema out \<lparr>queries = [q]\<rparr> \<and> files q = [m1, m2]"
  with assms(5) have typed: "list_all2 is_RawFinding qs [q]"
    by (simp add: is_KicsSchema_def)
  have loop: "forEach_query host qs (True, []) = (None, qs = [], [spec_Violation host q])"
    using forEach_query_typed [OF typed, of host True "[]"] by simp
  have "validate host this ctx s =
      (Inr \<lparr>violations = [spec_Violation host q], success = False\<rparr>, s\<lparr>world := w'\<rparr>)"
    using validate_parsed [OF assms(1-5) loop] assms(6) by simp
  moreover have "length (violatingResources (spec_Violation host q)) = 2"
    using h by (simp add: spec_Violation_def)
  ultimately show "\<exists>v. validate host this ctx s =
                (Inr \<lparr>violations = [v], success = False\<rparr>, s\<lparr>world := w'\<rparr>) \<and>
             length (violatingResources v) = 2"
    by blast
qed

theorem nonempty_queries_fail_witness:
  "is_KicsSchema output_one_query \<lparr>queries = [finding_two_files]\<rparr> \<and>
   (\<exists>r s'. validate
       (demo_host (None, [(demo_report_path, text_one_query)])
          [(text_one_query, output_one_query)])
       demo_this demo_context demo_state = (Inr r, s') \<and> \<not> success r) \<and>
   (\<exists>v. validate
       (demo_host (None, [(demo_report_path, text_one_query)])
          [(text_one_query, output_one_query)])
       demo_this demo_context demo_state =
         (Inr \<lparr>violations = [v], success = False\<rparr>,
          demo_state\<lparr>world := [(demo_report_path, text_one_query)]\<rparr>) \<and>
       length (violatingResources v) = 2)"
proof -
  let ?host = "demo_host (None, [(demo_report_path, text_one_query)])
          [(text_one_query, output_one_query)]"
  have h1: "fs_realpathSync ?host (os_tmpdir ?host) (world demo_state) = Inr ''/tmp''"
    by (simp add: demo_host_def)
  have h2: "exec ?host (flags ?host demo_this demo_context ''/tmp'') (world demo_state) =
      (None, [(demo_report_path, text_one_query)])"
    by (simp add: demo_host_def demo_state_def)
  have h3: "fs_readFileSync ?host (path_join ?host [''/tmp'', name demo_this] @ ''.json'')
      [(demo_report_path, text_one_query)] = Inr text_one_query"
    by (simp add: demo_host_def demo_this_def demo_report_path_def demo_join_def)
  have h4: "JSON_parse ?host text_one_query = Inr output_one_query"
    by (simp add: demo_host_def)
  have h5: "js_get output_one_query ''queries'' = Inr (JArr [query_two_files])"
    by (simp add: output_one_query_def)
  have h6: "[query_two_files] \<noteq> []"
    by simp
  have typed: "is_KicsSchema output_one_query \<lparr>queries = [finding_two_files]\<rparr>"
    by (simp add: is_KicsSchema_def is_RawFinding_def is_RawFileMatch_def
        output_one_query_def query_two_files_def finding_two_files_def)
  have two: "files finding_two_files =
      [\<lparr>file_name = ''/a/template.json'', resource_name = ''BucketA'',
        search_key = ''Resources.BucketA''\<rparr>,
       \<lparr>file_name = ''/b/template.json'', resource_name = ''BucketB'',
        search_key = ''Resources.BucketB''\<rparr>]"
    by (simp add: finding_two_files_def)
  note t = nonempty_queries_fail [OF h1 h2 h3 h4 h5 h6]
  from t have a: "\<exists>r s'. validate ?host demo_this demo_context demo_state = (Inr r, s') \<and>
      \<not> success r"
    by (rule conjunct1)
  from t typed two have b: "\<exists>v. validate ?host demo_this demo_context demo_state =
         (Inr \<lparr>violations = [v], success = False\<rparr>,
          demo_state\<lparr>world := [(demo_report_path, text_one_query)]\<rparr>) \<and>
       length (violatingResources v) = 2"
    by blast
  from typed a b show ?thesis by blast
qed

text \<open>
  C3. For every scan in which the process runs, the report file is read and parsed, and
  \<open>queries\<close> is the empty array, \<open>validate\<close> returns \<open>success = true\<close> and no
  violations (and prints nothing).
\<close>

theorem empty_queries_succeed:
  assumes "fs_realpathSync host (os_tmpdir host) (world s) = Inr reportDir"
    and "exec host (flags host this ctx reportDir) (world s) = (None, w')"
    and "fs_readFileSync host (path_join host [reportDir, name this] @ ''.json'') w' = Inr results"
    and "JSON_parse host results = Inr out"
    and "js_get out ''queries'' = Inr (JArr [])"
  shows "validate host this ctx s =
     (Inr \<lparr>violations = [], success = True\<rparr>, s\<lparr>world := w'\<rparr>)"
  using validate_parsed [OF assms, of None True "[]"] by simp

theorem empty_queries_succeed_witness:
  "validate
     (demo_host (None, [(demo_report_path, text_no_queries)])
        [(text_no_queries, output_no_queries)])
     demo_this demo_context demo_state =
     (Inr \<lparr>violations = [], success = True\<rparr>,
      demo_state\<lparr>world := [(demo_report_path, text_no_queries)]\<rparr>)"
proof -
  let ?host = "demo_host (None, [(demo_report_path, text_no_queries)])
        [(text_no_queries, output_no_queries)]"
  have h1: "fs_realpathSync ?host (os_tmpdir ?host) (world demo_state) = Inr ''/tmp''"
    by (simp add: demo_host_def)
  have h2: "exec ?host (flags ?host demo_this demo_context ''/tmp'') (world demo_state) =
      (None, [(demo_report_path, text_no_queries)])"
    by (simp add: demo_host_def demo_state_def)
  have h3: "fs_readFileSync ?host (path_join ?host [''/tmp'', name demo_this] @ ''.json'')
      [(demo_report_path, text_no_queries)] = Inr text_no_queries"
    by (simp add: demo_host_def demo_this_def demo_report_path_def demo_join_def)
  have h4: "JSON_parse ?host text_no_queries = Inr output_no_queries"
    by (simp add: demo_host_def)
  have h5: "js_get output_no_queries ''queries'' = Inr (JArr [])"
    by (simp add: output_no_queries_def)
  from empty_queries_succeed [OF h1 h2 h3 h4 h5] show ?thesis .
qed

text \<open>
  C4. For every scan in which \<open>exec\<close> throws (the process could not be spawned, or an
  exit that \<open>exec\<close> reports), or the report file cannot be read, or its text is not
  JSON, \<open>validate\<close> catches the error, prints it with \<open>console.error\<close>, and returns
  \<open>{violations: [], success: false}\<close>: a report, not an exception.
\<close>

theorem scan_errors_are_caught:
  assumes "fs_realpathSync host (os_tmpdir host) (world s) = Inr reportDir"
    and "exec host (flags host this ctx reportDir) (world s) = (thrown, w')"
    and "thrown = Some e \<or>
         (thrown = None \<and>
          fs_readFileSync host (path_join host [reportDir, name this] @ ''.json'') w' = Inl e) \<or>
         (thrown = None \<and>
          (\<exists>results.
             fs_readFileSync host (path_join host [reportDir, name this] @ ''.json'') w'
               = Inr results \<and>
             JSON_parse host results = Inl e))"
  shows "validate host this ctx s =
     (Inr \<lparr>violations = [], success = False\<rparr>, s\<lparr>world := w', console := console s @ [e]\<rparr>)"
  using assms by (auto simp: validate_def try_block_def Let_def)

theorem scan_errors_are_caught_witness:
  "validate (demo_host (Some (SystemError ''spawn EACCES''), []) [])
     demo_this demo_context demo_state =
     (Inr \<lparr>violations = [], success = False\<rparr>,
      demo_state\<lparr>world := [], console := console demo_state @ [SystemError ''spawn EACCES'']\<rparr>) \<and>
   validate (demo_host (None, []) []) demo_this demo_context demo_state =
     (Inr \<lparr>violations = [], success = False\<rparr>,
      demo_state\<lparr>world := [], console := console demo_state @ [SystemError ''ENOENT'']\<rparr>) \<and>
   validate (demo_host (None, [(demo_report_path, text_malformed)]) [])
     demo_this demo_context demo_state =
     (Inr \<lparr>violations = [], success = False\<rparr>,
      demo_state\<lparr>world := [(demo_report_path, text_malformed)],
        console := console demo_state @ [SyntaxError ''Unexpected token'']\<rparr>)"
proof -
  let ?spawn = "demo_host (Some (SystemError ''spawn EACCES''), []) []"
  let ?missing = "demo_host (None, []) []"
  let ?malformed = "demo_host (None, [(demo_report_path, text_malformed)]) []"
  have a1: "fs_realpathSync ?spawn (os_tmpdir ?spawn) (world demo_state) = Inr ''/tmp''"
    by (simp add: demo_host_def)
  have a2: "exec ?spawn (flags ?spawn demo_this demo_context ''/tmp'') (world demo_state) =
      (Some (SystemError ''spawn EACCES''), [])"
    by (simp add: demo_host_def demo_state_def)
  have b1: "fs_realpathSync ?missing (os_tmpdir ?missing) (world demo_state) = Inr ''/tmp''"
    by (simp add: demo_host_def)
  have b2: "exec ?missing (flags ?missing demo_this demo_context ''/tmp'') (world demo_state) =
      (None, [])"
    by (simp add: demo_host_def demo_state_def)
  have b3: "fs_readFileSync ?missing (path_join ?missing [''/tmp'', name demo_this] @ ''.json'')
      [] = Inl (SystemError ''ENOENT'')"
    by (simp add: demo_host_def)
  have c1: "fs_realpathSync ?malformed (os_tmpdir ?malformed) (world demo_state) = Inr ''/tmp''"
    by (simp add: demo_host_def)
  have c2: "exec ?malformed (flags ?malformed demo_this demo_context ''/tmp'')
      (world demo_state) = (None, [(demo_report_path, text_malformed)])"
    by (simp add: demo_host_def demo_state_def)
  have c3: "fs_readFileSync ?malformed
      (path_join ?malformed [''/tmp'', name demo_this] @ ''.json'')
      [(demo_report_path, text_malformed)] = Inr text_malformed"
    by (simp add: demo_host_def demo_this_def demo_report_path_def demo_join_def)
  have c4: "JSON_parse ?malformed text_malformed = Inl (SyntaxError ''Unexpected token'')"
    by (simp add: demo_host_def)
  have a: "validate ?spawn demo_this demo_context demo_state =
     (Inr \<lparr>violations = [], success = False\<rparr>,
      demo_state\<lparr>world := [], console := console demo_state @ [SystemError ''spawn EACCES'']\<rparr>)"
    by (rule scan_errors_are_caught [OF a1 a2]) simp
  have b: "validate ?missing demo_this demo_context demo_state =
     (Inr \<lparr>violations = [], success = False\<rparr>,
      demo_state\<lparr>world := [], console := console demo_state @ [SystemError ''ENOENT'']\<rparr>)"
    by (rule scan_errors_are_caught [OF b1 b2]) (simp add: b3)
  have c: "validate ?malformed demo_this demo_context demo_state =
     (Inr \<lparr>violations = [], success = False\<rparr>,
      demo_state\<lparr>world := [(demo_report_path, text_malformed)],
        console := console demo_state @ [SyntaxError ''Unexpected token'']\<rparr>)"
    by (rule scan_errors_are_caught [OF c1 c2]) (simp add: c3 c4)
  from a b c show ?thesis by simp
qed

text \<open>
  C5. For every configuration that does not supply \<open>failureSeverities\<close> (the
  constructor called without argument, or with \<open>props\<close> that have no such field), the
  instance holds \<open>[Severity.HIGH, Severity.MEDIUM]\<close>, line 88 renders it as the four
  words \<open>--fail-on HIGH --fail-on MEDIUM\<close>, and the argument vector of every scan has
  exactly two \<open>--fail-on\<close> options, the first with value \<open>HIGH\<close> and the second with
  value \<open>MEDIUM\<close>.
\<close>

theorem default_failureSeverities:
  assumes "KicsValidator_new Severity host props_arg = Inr this"
    and "props_arg = None \<or>
         (\<exists>p. props_arg = Some p \<and> KicsValidatorProps.failureSeverities p = None)"
  shows "failureSeverities this = [HIGH Severity, MEDIUM Severity] \<and>
     flatMap_flag ''--fail-on'' (failureSeverities this) =
       [''--fail-on'', HIGH Severity, ''--fail-on'', MEDIUM Severity] \<and>
     options_named ''--fail-on'' (flags host this ctx reportDir) =
       [(''--fail-on'', Some (HIGH Severity)), (''--fail-on'', Some (MEDIUM Severity))]"
proof -
  from assms have "failureSeverities this = [HIGH Severity, MEDIUM Severity]"
    by (auto simp: KicsValidator_new_def Let_def split: sum.splits)
  then show ?thesis
    by (simp add: options_named_def cli_options_flags filter_flag_map flatMap_flag_def)
qed

theorem default_failureSeverities_witness:
  "KicsValidator_new demo_Severity (demo_host (None, []) []) None = Inr demo_this \<and>
   failureSeverities demo_this = [''high'', ''medium''] \<and>
   options_named ''--fail-on''
     (flags (demo_host (None, []) []) demo_this demo_context ''/tmp'') =
     [(''--fail-on'', Some ''high''), (''--fail-on'', Some ''medium'')]"
proof -
  let ?host = "demo_host (None, []) []"
  have h1: "KicsValidator_new demo_Severity ?host None = Inr demo_this"
    by (simp add: KicsValidator_new_def getArch_def demo_host_def demo_this_def
        demo_Severity_def demo_join_def)
  have h2: "None = None \<or>
      (\<exists>p. None = Some p \<and> KicsValidatorProps.failureSeverities p = None)"
    by simp
  from default_failureSeverities [OF h1 h2, of demo_context "''/tmp''"] h1 show ?thesis
    by (simp add: demo_Severity_def)
qed

text \<open>
  C6. For every configuration, the argument vector ends with the words
  \<open>--exclude-queries q\<close> for each element of \<open>excludeQueries\<close>, then
  \<open>--exclude-categories c\<close> and \<open>--exclude-severities s\<close> likewise, then the three
  closing words; read as a command line, it has one \<open>--exclude-queries\<close> option
  per element of \<open>excludeQueries\<close>, one \<open>--exclude-categories\<close> option per element of
  \<open>excludeCategories\<close> and one \<open>--exclude-severities\<close> option per element of
  \<open>excludeSeverities\<close>, each with that element as its value and in input order, and
  none of them when the list is absent or empty. (\<open>props\<close> is the constructor's
  argument, or \<open>{}\<close> when there is none.)
\<close>

theorem exclude_options_per_element:
  assumes "KicsValidator_new Severity host props_arg = Inr this"
    and "props =
         (case props_arg of
            None \<Rightarrow> \<lparr>KicsValidatorProps.excludeCategories = None,
                     KicsValidatorProps.excludeQueries = None,
                     KicsValidatorProps.excludeSeverities = None,
                     KicsValidatorProps.failureSeverities = None\<rparr>
          | Some p \<Rightarrow> p)"
  shows "(\<exists>before. flags host this ctx reportDir =
        before
        @ concat (map (\<lambda>x. [''--exclude-queries'', x])
            (case KicsValidatorProps.excludeQueries props of None \<Rightarrow> [] | Some l \<Rightarrow> l))
        @ concat (map (\<lambda>x. [''--exclude-categories'', x])
            (case KicsValidatorProps.excludeCategories props of None \<Rightarrow> [] | Some l \<Rightarrow> l))
        @ concat (map (\<lambda>x. [''--exclude-severities'', x])
            (case KicsValidatorProps.excludeSeverities props of None \<Rightarrow> [] | Some l \<Rightarrow> l))
        @ [''--ci'', ''--report-formats'', ''\"json\"'']) \<and>
     options_named ''--exclude-queries'' (flags host this ctx reportDir) =
       map (\<lambda>x. (''--exclude-queries'', Some x))
         (case KicsValidatorProps.excludeQueries props of None \<Rightarrow> [] | Some l \<Rightarrow> l) \<and>
     options_named ''--exclude-categories'' (flags host this ctx reportDir) =
       map (\<lambda>x. (''--exclude-categories'', Some x))
         (case KicsValidatorProps.excludeCategories props of None \<Rightarrow> [] | Some l \<Rightarrow> l) \<and>
     options_named ''--exclude-severities'' (flags host this ctx reportDir) =
       map (\<lambda>x. (''--exclude-severities'', Some x))
         (case KicsValidatorProps.excludeSeverities props of None \<Rightarrow> [] | Some l \<Rightarrow> l)"
proof -
  from assms have f: "excludeQueries this = KicsValidatorProps.excludeQueries props"
    "excludeCategories this = KicsValidatorProps.excludeCategories props"
    "excludeSeverities this = KicsValidatorProps.excludeSeverities props"
    by (auto simp: KicsValidator_new_def Let_def split: sum.splits option.splits)
  let ?before = "[kics this, ''scan'']
       @ flatMap_flag ''--path'' (templatePaths ctx)
       @ [''--output-path'', reportDir,
          ''--output-name'', name this,
          ''--libraries-path'',
          path_join host [module_dirname host, ''..'', ''assets'', ''libraries''],
          ''--queries-path'',
          path_join host [module_dirname host, ''..'', ''assets'', ''queries'']]
       @ flatMap_flag ''--fail-on'' (failureSeverities this)"
  have words: "flags host this ctx reportDir =
      ?before
      @ concat (map (\<lambda>x. [''--exclude-queries'', x])
          (case KicsValidatorProps.excludeQueries props of None \<Rightarrow> [] | Some l \<Rightarrow> l))
      @ concat (map (\<lambda>x. [''--exclude-categories'', x])
          (case KicsValidatorProps.excludeCategories props of None \<Rightarrow> [] | Some l \<Rightarrow> l))
      @ concat (map (\<lambda>x. [''--exclude-severities'', x])
          (case KicsValidatorProps.excludeSeverities props of None \<Rightarrow> [] | Some l \<Rightarrow> l))
      @ [''--ci'', ''--report-formats'', ''\"json\"'']"
    by (simp add: flags_def flatMap_flag_def f split: option.splits)
  have opts: "options_named ''--exclude-queries'' (flags host this ctx reportDir) =
       map (\<lambda>x. (''--exclude-queries'', Some x))
         (case KicsValidatorProps.excludeQueries props of None \<Rightarrow> [] | Some l \<Rightarrow> l) \<and>
     options_named ''--exclude-categories'' (flags host this ctx reportDir) =
       map (\<lambda>x. (''--exclude-categories'', Some x))
         (case KicsValidatorProps.excludeCategories props of None \<Rightarrow> [] | Some l \<Rightarrow> l) \<and>
     options_named ''--exclude-severities'' (flags host this ctx reportDir) =
       map (\<lambda>x. (''--exclude-severities'', Some x))
         (case KicsValidatorProps.excludeSeverities props of None \<Rightarrow> [] | Some l \<Rightarrow> l)"
    by (simp add: options_named_def cli_options_flags filter_flag_map f)
  show ?thesis
  proof (rule conjI)
    show "\<exists>before. flags host this ctx reportDir =
        before
        @ concat (map (\<lambda>x. [''--exclude-queries'', x])
            (case KicsValidatorProps.excludeQueries props of None \<Rightarrow> [] | Some l \<Rightarrow> l))
        @ concat (map (\<lambda>x. [''--exclude-categories'', x])
            (case KicsValidatorProps.excludeCategories props of None \<Rightarrow> [] | Some l \<Rightarrow> l))
        @ concat (map (\<lambda>x. [''--exclude-severities'', x])
            (case KicsValidatorProps.excludeSeverities props of None \<Rightarrow> [] | Some l \<Rightarrow> l))
        @ [''--ci'', ''--report-formats'', ''\"json\"'']"
      by (rule exI [where x = "?before"]) (rule words)
  qed (rule opts)
qed

theorem exclude_options_per_element_witness:
  "KicsValidator_new demo_Severity (demo_host (None, []) []) (Some demo_props) =
     Inr demo_this_excluding \<and>
   options_named ''--exclude-queries''
     (flags (demo_host (None, []) []) demo_this_excluding demo_context ''/tmp'') =
     [(''--exclude-queries'', Some ''a1''), (''--exclude-queries'', Some ''b2'')] \<and>
   options_named ''--exclude-categories''
     (flags (demo_host (None, []) []) demo_this_excluding demo_context ''/tmp'') = [] \<and>
   options_named ''--exclude-severities''
     (flags (demo_host (None, []) []) demo_this_excluding demo_context ''/tmp'') = []"
proof -
  let ?host = "demo_host (None, []) []"
  have h1: "KicsValidator_new demo_Severity ?host (Some demo_props) = Inr demo_this_excluding"
    by (simp add: KicsValidator_new_def getArch_def demo_host_def demo_props_def
        demo_this_excluding_def demo_join_def)
  have h2: "demo_props =
         (case Some demo_props of
            None \<Rightarrow> \<lparr>KicsValidatorProps.excludeCategories = None,
                     KicsValidatorProps.excludeQueries = None,
                     KicsValidatorProps.excludeSeverities = None,
                     KicsValidatorProps.failureSeverities = None\<rparr>
          | Some p \<Rightarrow> p)"
    by simp
  from exclude_options_per_element [OF h1 h2, of demo_context "''/tmp''", THEN conjunct2] h1
  show ?thesis
    by (simp add: demo_props_def)
qed

text \<open>
  C7. On every host whose architecture is neither \<open>x64\<close> nor \<open>arm64\<close>, the constructor
  throws (the error of \<open>getArch\<close>); on \<open>x64\<close> and on \<open>arm64\<close> it returns an instance;
  and \<open>validate\<close> does not depend on the architecture of the host, so no architecture
  error is left for the scan.
\<close>

theorem unsupported_arch_fails_at_construction:
  "(os_arch host \<noteq> ''x64'' \<and> os_arch host \<noteq> ''arm64'' \<longrightarrow>
      KicsValidator_new Severity host props_arg =
        Inl (Error (''Architecture '' @ os_arch_text host @ '' is not supported''))) \<and>
   (os_arch host = ''x64'' \<or> os_arch host = ''arm64'' \<longrightarrow>
      (\<exists>this. KicsValidator_new Severity host props_arg = Inr this)) \<and>
   validate (host\<lparr>os_arch := a\<rparr>) this ctx s = validate host this ctx s"
  by (auto simp: KicsValidator_new_def getArch_def Let_def validate_arch)

theorem unsupported_arch_fails_at_construction_witness:
  "KicsValidator_new demo_Severity ((demo_host (None, []) [])\<lparr>os_arch := ''ia32''\<rparr>) None =
     Inl (Error ''Architecture function arch() { [native code] } is not supported'') \<and>
   (\<exists>this. KicsValidator_new demo_Severity (demo_host (None, []) []) None = Inr this) \<and>
   (\<exists>this. KicsValidator_new demo_Severity
       ((demo_host (None, []) [])\<lparr>os_arch := ''arm64''\<rparr>) None = Inr this) \<and>
   validate ((demo_host (None, []) [])\<lparr>os_arch := ''ia32''\<rparr>)
       demo_this demo_context demo_state =
     validate (demo_host (None, []) []) demo_this demo_context demo_state"
  using unsupported_arch_fails_at_construction
      [where host = "(demo_host (None, []) [])\<lparr>os_arch := ''ia32''\<rparr>"
         and Severity = demo_Severity and props_arg = None and a = "''ia32''"
         and this = demo_this and ctx = demo_context and s = demo_state]
    unsupported_arch_fails_at_construction
      [where host = "demo_host (None, []) []"
         and Severity = demo_Severity and props_arg = None and a = "''ia32''"
         and this = demo_this and ctx = demo_context and s = demo_state]
    unsupported_arch_fails_at_construction
      [where host = "(demo_host (None, []) [])\<lparr>os_arch := ''arm64''\<rparr>"
         and Severity = demo_Severity and props_arg = None and a = "''ia32''"
         and this = demo_this and ctx = demo_context and s = demo_state]
  by (simp add: demo_host_def)

text \<open>
  C8. Whenever \<open>validate\<close> returns a report, on every host, instance, context and
  world and whatever happened inside the \<open>try\<close>: if the report has
  \<open>success = true\<close>, then its \<open>violations\<close> list is empty.
\<close>

theorem success_implies_no_violations:
  "validate host this ctx s = (Inr r, s') \<Longrightarrow> success r \<Longrightarrow> violations r = []"
  by (auto simp: validate_def Let_def split: sum.splits prod.splits option.splits
      dest: try_block_success)

theorem success_implies_no_violations_witness:
  "validate
     (demo_host (None, [(demo_report_path, text_no_queries)])
        [(text_no_queries, output_no_queries)])
     demo_this demo_context demo_state =
     (Inr \<lparr>violations = [], success = True\<rparr>,
      demo_state\<lparr>world := [(demo_report_path, text_no_queries)]\<rparr>) \<and>
   success \<lparr>violations = [], success = True\<rparr> \<and>
   violations \<lparr>violations = [], success = True\<rparr> = []"
proof -
  let ?host = "demo_host (None, [(demo_report_path, text_no_queries)])
        [(text_no_queries, output_no_queries)]"
  have h1: "fs_realpathSync ?host (os_tmpdir ?host) (world demo_state) = Inr ''/tmp''"
    by (simp add: demo_host_def)
  have h2: "exec ?host (flags ?host demo_this demo_context ''/tmp'') (world demo_state) =
      (None, [(demo_report_path, text_no_queries)])"
    by (simp add: demo_host_def demo_state_def)
  have h3: "fs_readFileSync ?host (path_join ?host [''/tmp'', name demo_this] @ ''.json'')
      [(demo_report_path, text_no_queries)] = Inr text_no_queries"
    by (simp add: demo_host_def demo_this_def demo_report_path_def demo_join_def)
  have h4: "JSON_parse ?host text_no_queries = Inr output_no_queries"
    by (simp add: demo_host_def)
  have h5: "js_get output_no_queries ''queries'' = Inr (JArr [])"
    by (simp add: output_no_queries_def)
  have loop: "forEach_query ?host [] (True, []) = (None, True, [])"
    by simp
  have v: "validate ?host demo_this demo_context demo_state =
     (Inr \<lparr>violations = [], success = True\<rparr>,
      demo_state\<lparr>world := [(demo_report_path, text_no_queries)]\<rparr>)"
    using validate_parsed [OF h1 h2 h3 h4 h5 loop] by simp
  have t: "success \<lparr>violations = [], success = True\<rparr>"
    by simp
  from success_implies_no_violations [OF v t] v t show ?thesis
    by blast
qed

text \<open>
  C9. If the report parses but a round of the mapping loop throws, \<open>validate\<close> returns
  \<open>success = false\<close> together with the violations pushed in the rounds before: with
  well-typed entries \<open>good\<close> followed by an entry \<open>bad\<close> whose mapping throws (as
  it does when \<open>bad\<close> has no \<open>files\<close>: a \<open>TypeError\<close>), the result holds exactly
  the violations of \<open>good\<close>, and the error is printed. So the list returned in an
  error case need not be empty.
\<close>

theorem partial_violations_kept_on_throw:
  assumes "fs_realpathSync host (os_tmpdir host) (world s) = Inr reportDir"
    and "exec host (flags host this ctx reportDir) (world s) = (None, w')"
    and "fs_readFileSync host (path_join host [reportDir, name this] @ ''.json'') w' = Inr results"
    and "JSON_parse host results = Inr out"
    and "js_get out ''queries'' = Inr (JArr (good @ bad # rest))"
    and "list_all2 is_RawFinding good qs"
    and "map_query host bad = Inl e \<or> (js_get bad ''files'' = Inr JUndefined \<and> e = TypeError)"
  shows "validate host this ctx s =
     (Inr \<lparr>violations = map (spec_Violation host) qs, success = False\<rparr>,
      s\<lparr>world := w', console := console s @ [e]\<rparr>)"
proof -
  from assms(7) have "map_query host bad = Inl e"
    using map_query_files_absent by blast
  from forEach_query_throw [OF assms(6) this, of rest True "[]"]
  have "forEach_query host (good @ bad # rest) (True, []) =
      (Some e, False, map (spec_Violation host) qs)" by simp
  from validate_parsed [OF assms(1-5) this] show ?thesis by simp
qed

theorem partial_violations_kept_on_throw_witness:
  "validate
     (demo_host (None, [(demo_report_path, text_files_absent)])
        [(text_files_absent, output_files_absent)])
     demo_this demo_context demo_state =
     (Inr \<lparr>violations = [violation_one_file], success = False\<rparr>,
      demo_state\<lparr>world := [(demo_report_path, text_files_absent)],
        console := console demo_state @ [TypeError]\<rparr>)"
proof -
  let ?host = "demo_host (None, [(demo_report_path, text_files_absent)])
        [(text_files_absent, output_files_absent)]"
  have h1: "fs_realpathSync ?host (os_tmpdir ?host) (world demo_state) = Inr ''/tmp''"
    by (simp add: demo_host_def)
  have h2: "exec ?host (flags ?host demo_this demo_context ''/tmp'') (world demo_state) =
      (None, [(demo_report_path, text_files_absent)])"
    by (simp add: demo_host_def demo_state_def)
  have h3: "fs_readFileSync ?host (path_join ?host [''/tmp'', name demo_this] @ ''.json'')
      [(demo_report_path, text_files_absent)] = Inr text_files_absent"
    by (simp add: demo_host_def demo_this_def demo_report_path_def demo_join_def)
  have h4: "JSON_parse ?host text_files_absent = Inr output_files_absent"
    by (simp add: demo_host_def)
  have h5: "js_get output_files_absent ''queries'' =
      Inr (JArr ([query_one_file] @ query_files_absent # []))"
    by (simp add: output_files_absent_def)
  have h6: "list_all2 is_RawFinding [query_one_file] [finding_one_file]"
    by (simp add: is_RawFinding_def is_RawFileMatch_def query_one_file_def
        finding_one_file_def)
  have h7: "map_query ?host query_files_absent = Inl TypeError \<or>
      (js_get query_files_absent ''files'' = Inr JUndefined \<and> TypeError = TypeError)"
    by (simp add: query_files_absent_def)
  have m: "map (spec_Violation ?host) [finding_one_file] = [violation_one_file]"
    by (simp add: spec_Violation_def spec_ViolatingResource_def demo_host_def
        demo_join_def demo_dirname_def demo_basename_def
        finding_one_file_def violation_one_file_def)
  from partial_violations_kept_on_throw [OF h1 h2 h3 h4 h5 h6 h7] m show ?thesis
    by simp
qed

text \<open>
  C10. When the context has no template paths, \<open>validate\<close> checks nothing: the argument
  vector is the usual one with no \<open>--path\<close> option, and \<open>exec\<close> is run on it (the
  world after the call is the one \<open>exec\<close> leaves), and \<open>validate\<close> returns a report.
\<close>

theorem empty_templatePaths_still_scans:
  assumes "templatePaths ctx = []"
    and "fs_realpathSync host (os_tmpdir host) (world s) = Inr reportDir"
  shows "flags host this ctx reportDir =
       [kics this, ''scan'',
        ''--output-path'', reportDir,
        ''--output-name'', name this,
        ''--libraries-path'', path_join host [module_dirname host, ''..'', ''assets'', ''libraries''],
        ''--queries-path'', path_join host [module_dirname host, ''..'', ''assets'', ''queries'']]
       @ flatMap_flag ''--fail-on'' (failureSeverities this)
       @ (case excludeQueries this of
            Some l \<Rightarrow> flatMap_flag ''--exclude-queries'' l | None \<Rightarrow> [])
       @ (case excludeCategories this of
            Some l \<Rightarrow> flatMap_flag ''--exclude-categories'' l | None \<Rightarrow> [])
       @ (case excludeSeverities this of
            Some l \<Rightarrow> flatMap_flag ''--exclude-severities'' l | None \<Rightarrow> [])
       @ [''--ci'', ''--report-formats'', ''\"json\"''] \<and>
     options_named ''--path'' (flags host this ctx reportDir) = [] \<and>
     (\<exists>r s'. validate host this ctx s = (Inr r, s') \<and>
        world s' = snd (exec host (flags host this ctx reportDir) (world s)))"
proof (intro conjI)
  show "options_named ''--path'' (flags host this ctx reportDir) = []"
    using assms(1)
    by (simp add: options_named_def cli_options_flags filter_flag_map)
  show "\<exists>r s'. validate host this ctx s = (Inr r, s') \<and>
        world s' = snd (exec host (flags host this ctx reportDir) (world s))"
    using assms(2)
    by (auto simp: validate_def try_block_def Let_def
        split: prod.splits option.splits sum.splits)
qed (simp add: flags_def flatMap_flag_def assms(1))

theorem empty_templatePaths_still_scans_witness:
  "flags (demo_host (None, [(demo_report_path, text_no_queries)])
        [(text_no_queries, output_no_queries)])
     demo_this \<lparr>templatePaths = []\<rparr> ''/tmp'' =
     [''/plugin/bin/linux_amd64/kics'', ''scan'',
      ''--output-path'', ''/tmp'',
      ''--output-name'', ''cdk-validator-kics'',
      ''--libraries-path'', ''/plugin/assets/libraries'',
      ''--queries-path'', ''/plugin/assets/queries'',
      ''--fail-on'', ''high'', ''--fail-on'', ''medium'',
      ''--ci'', ''--report-formats'', ''\"json\"''] \<and>
   (\<exists>r s'. validate
       (demo_host (None, [(demo_report_path, text_no_queries)])
          [(text_no_queries, output_no_queries)])
       demo_this \<lparr>templatePaths = []\<rparr> demo_state = (Inr r, s') \<and>
     world s' = [(demo_report_path, text_no_queries)])"
proof -
  let ?host = "demo_host (None, [(demo_report_path, text_no_queries)])
        [(text_no_queries, output_no_queries)]"
  let ?ctx = "\<lparr>templatePaths = []\<rparr>"
  have h1: "templatePaths ?ctx = []"
    by simp
  have h2: "fs_realpathSync ?host (os_tmpdir ?host) (world demo_state) = Inr ''/tmp''"
    by (simp add: demo_host_def)
  have x: "snd (exec ?host (flags ?host demo_this ?ctx ''/tmp'') (world demo_state)) =
      [(demo_report_path, text_no_queries)]"
    by (simp add: demo_host_def demo_state_def)
  note t = empty_templatePaths_still_scans [OF h1 h2, of demo_this]
  from t have a: "flags ?host demo_this ?ctx ''/tmp'' =
     [''/plugin/bin/linux_amd64/kics'', ''scan'',
      ''--output-path'', ''/tmp'',
      ''--output-name'', ''cdk-validator-kics'',
      ''--libraries-path'', ''/plugin/assets/libraries'',
      ''--queries-path'', ''/plugin/assets/queries'',
      ''--fail-on'', ''high'', ''--fail-on'', ''medium'',
      ''--ci'', ''--report-formats'', ''\"json\"'']"
    by (simp add: demo_host_def demo_this_def flatMap_flag_def demo_join_def)
  from t x have b: "\<exists>r s'. validate ?host demo_this ?ctx demo_state = (Inr r, s') \<and>
     world s' = [(demo_report_path, text_no_queries)]"
    by simp
  from a b show ?thesis by blast
qed

end
